theory Spec2Isabelle
  imports Complex_Main "HOL-Library.Word"
begin

section \<open>Python values and exceptions\<close>

text \<open>
  Exceptions of the Python sources are values of the type \<open>error\<close>; a function that can
  raise returns \<open>error + 'a\<close> with \<open>Inl\<close> for the exception.
\<close>

datatype error = ValueError | IndexError | TypeError | Full | Empty

text \<open>A value that is either \<open>None\<close> or a number (Python floats are read as reals).\<close>

datatype pyval = PyNone | PyNum real

text \<open>\<open>int(x)\<close> on a float truncates towards zero.\<close>

definition py_int :: "real \<Rightarrow> int" where
  "py_int r = (if 0 \<le> r then \<lfloor>r\<rfloor> else \<lceil>r\<rceil>)"

text \<open>\<open>xs[i]\<close> on a Python list: a negative index counts from the end, out of range raises.\<close>

definition py_index :: "'a list \<Rightarrow> int \<Rightarrow> error + 'a" where
  "py_index xs i =
     (if 0 \<le> i \<and> i < int (length xs) then Inr (xs ! nat i)
      else if i < 0 \<and> - int (length xs) \<le> i then Inr (xs ! nat (int (length xs) + i))
      else Inl IndexError)"

section \<open>modules/YoloE.py: images and the renderer\<close>

text \<open>
  A frame is an \<open>H x W x 3\<close> array of bytes, a mask an \<open>H x W\<close> array of bytes. The
  drawing and filtering primitives of OpenCV are not part of the repository: the renderer
  takes them as the fields of a record \<open>cv2\<close> and is verified for every choice of them.
\<close>

type_synonym pixel = "8 word list"
type_synonym image = "pixel list list"
type_synonym mask = "8 word list list"
type_synonym color = "nat \<times> nat \<times> nat"
type_synonym poly = "(int \<times> int) list"

record cv2 =
  GaussianBlur :: "image \<Rightarrow> real \<Rightarrow> image"
  fillPoly_mask :: "mask \<Rightarrow> poly \<Rightarrow> 8 word \<Rightarrow> mask"
  fillPoly :: "image \<Rightarrow> poly \<Rightarrow> color \<Rightarrow> image"
  addWeighted :: "image \<Rightarrow> real \<Rightarrow> image \<Rightarrow> real \<Rightarrow> real \<Rightarrow> image"
  rectangle :: "image \<Rightarrow> int \<times> int \<Rightarrow> int \<times> int \<Rightarrow> color \<Rightarrow> int \<Rightarrow> image"
  getTextSize :: "string \<Rightarrow> (int \<times> int) \<times> int"
  putText :: "image \<Rightarrow> string \<Rightarrow> int \<times> int \<Rightarrow> color \<Rightarrow> int \<Rightarrow> image"

definition COLOR_WHEEL :: "color list" where
  "COLOR_WHEEL =
     [(255, 0, 0), (0, 255, 0), (0, 0, 255), (255, 255, 0), (255, 0, 255),
      (0, 255, 255), (128, 0, 128), (255, 165, 0), (0, 128, 128), (128, 128, 0)]"

text \<open>
  The detection result read by \<open>plot_dets\<close>: \<open>dets.names\<close>, \<open>dets.boxes.cls\<close>,
  \<open>dets.boxes.xyxy\<close> and \<open>dets.masks\<close>, whose entries are \<open>None\<close> or carry the polygon
  \<open>seg.xy\<close>.
\<close>

record dets =
  names :: "string list"
  boxes_cls :: "real list"
  boxes_xyxy :: "(real \<times> real \<times> real \<times> real) list"
  masks :: "(real \<times> real) list option list"

text \<open>\<open>zip(a, b, c)\<close> stops at the shortest of the three.\<close>

fun zip3 :: "'a list \<Rightarrow> 'b list \<Rightarrow> 'c list \<Rightarrow> ('a \<times> 'b \<times> 'c) list" where
  "zip3 (a # as) (b # bs) (c # cs) = (a, b, c) # zip3 as bs cs"
| "zip3 _ _ _ = []"

definition zeros_like :: "image \<Rightarrow> image" where
  "zeros_like img = map (map (map (\<lambda>_. 0))) img"

definition shape_h :: "image \<Rightarrow> nat" where
  "shape_h img = length img"

definition shape_w :: "image \<Rightarrow> nat" where
  "shape_w img = (case img of [] \<Rightarrow> 0 | row # _ \<Rightarrow> length row)"

definition zeros_hw :: "nat \<Rightarrow> nat \<Rightarrow> mask" where
  "zeros_hw h w = replicate h (replicate w 0)"

text \<open>\<open>np.any(mask_all)\<close>\<close>

definition np_any :: "mask \<Rightarrow> bool" where
  "np_any m = (\<exists>row \<in> set m. \<exists>v \<in> set row. v \<noteq> 0)"

text \<open>
  \<open>result[mask_all == 255] = src[mask_all == 255]\<close>: boolean-mask assignment. NumPy raises
  \<open>IndexError\<close> when the mask does not have the shape of the two images.
\<close>

definition same_shape :: "mask \<Rightarrow> image \<Rightarrow> bool" where
  "same_shape m img = (map length m = map length img)"

definition paste_masked :: "mask \<Rightarrow> image \<Rightarrow> image \<Rightarrow> error + image" where
  "paste_masked m src result =
     (if same_shape m src \<and> same_shape m result
      then Inr (map (\<lambda>(mrow, srow, rrow).
                   map (\<lambda>(v, sp, rp). if v = 255 then sp else rp) (zip mrow (zip srow rrow)))
                 (zip m (zip src result)))
      else Inl IndexError)"

text \<open>\<open>classes[int(cls_idx)] if classes else str(int(cls_idx))\<close>\<close>

fun digits :: "nat \<Rightarrow> string" where
  "digits n = (if n < 10 then [char_of (48 + n)] else digits (n div 10) @ [char_of (48 + n mod 10)])"

declare digits.simps [simp del]

definition str_int :: "int \<Rightarrow> string" where
  "str_int i = (if i < 0 then CHR ''-'' # digits (nat (- i)) else digits (nat i))"

definition class_name_of :: "string list \<Rightarrow> real \<Rightarrow> error + string" where
  "class_name_of classes cls_idx =
     (if classes \<noteq> [] then py_index classes (py_int cls_idx) else Inr (str_int (py_int cls_idx)))"

definition wheel_color :: "real \<Rightarrow> color" where
  "wheel_color cls_idx = COLOR_WHEEL ! nat (py_int cls_idx mod int (length COLOR_WHEEL))"

definition as_int32_poly :: "(real \<times> real) list \<Rightarrow> poly" where
  "as_int32_poly xy = map (\<lambda>(x, y). (py_int x, py_int y)) xy"

text \<open>Step 3 of \<open>plot_dets\<close>: the union mask and the tint-only overlay.\<close>

fun build_masks ::
  "cv2 \<Rightarrow> string list \<Rightarrow> string list option \<Rightarrow> bool \<Rightarrow>
   (real \<times> (real \<times> real \<times> real \<times> real) \<times> (real \<times> real) list option) list \<Rightarrow>
   mask \<times> image \<Rightarrow> error + (mask \<times> image)" where
  "build_masks cv classes filter' do_seg [] (mask_all, overlay) = Inr (mask_all, overlay)"
| "build_masks cv classes filter' do_seg ((cls_idx, xyxy, seg) # rest) (mask_all, overlay) =
     (case class_name_of classes cls_idx of
        Inl e \<Rightarrow> Inl e
      | Inr class_name \<Rightarrow>
          (if filter' \<noteq> None \<and> class_name \<notin> set (the filter')
           then build_masks cv classes filter' do_seg rest (mask_all, overlay)
           else (case seg of
                   None \<Rightarrow> build_masks cv classes filter' do_seg rest (mask_all, overlay)
                 | Some xy \<Rightarrow>
                     (let poly = as_int32_poly xy;
                          mask_all' = fillPoly_mask cv mask_all poly 255;
                          overlay' = (if do_seg then fillPoly cv overlay poly (wheel_color cls_idx)
                                      else overlay)
                      in build_masks cv classes filter' do_seg rest (mask_all', overlay')))))"

text \<open>Step 5 of \<open>plot_dets\<close>: boxes and labels, drawn last.\<close>

definition draw_label :: "cv2 \<Rightarrow> image \<Rightarrow> string \<Rightarrow> int \<Rightarrow> int \<Rightarrow> int \<Rightarrow> int \<Rightarrow> color \<Rightarrow> image" where
  "draw_label cv result class_name cx cy w h color =
     (case getTextSize cv class_name of
        ((tw, th), baseline) \<Rightarrow>
          (let text_x = max (min (cx - tw div 2) (w - tw)) 0;
               text_y = max (min (cy + th div 2) (h - baseline)) th;
               outlined = putText cv result class_name (text_x, text_y) (0, 0, 0) 3
           in putText cv outlined class_name (text_x, text_y) color 1))"

fun draw_boxes ::
  "cv2 \<Rightarrow> string list \<Rightarrow> string list option \<Rightarrow> bool \<Rightarrow> bool \<Rightarrow> int \<Rightarrow> int \<Rightarrow>
   (real \<times> (real \<times> real \<times> real \<times> real) \<times> (real \<times> real) list option) list \<Rightarrow>
   image \<Rightarrow> error + image" where
  "draw_boxes cv classes filter' do_det do_label w h [] result = Inr result"
| "draw_boxes cv classes filter' do_det do_label w h ((cls_idx, xyxy, seg) # rest) result =
     (case class_name_of classes cls_idx of
        Inl e \<Rightarrow> Inl e
      | Inr class_name \<Rightarrow>
          (if filter' \<noteq> None \<and> class_name \<notin> set (the filter')
           then draw_boxes cv classes filter' do_det do_label w h rest result
           else (case xyxy of
                   (rx1, ry1, rx2, ry2) \<Rightarrow>
                     (let x1 = py_int rx1; y1 = py_int ry1; x2 = py_int rx2; y2 = py_int ry2;
                          cx = (x1 + x2) div 2; cy = (y1 + y2) div 2;
                          color = wheel_color cls_idx;
                          boxed = (if do_det then rectangle cv result (x1, y1) (x2, y2) color 2
                                   else result);
                          labelled = (if do_label
                                      then draw_label cv boxed class_name cx cy w h color
                                      else boxed)
                      in draw_boxes cv classes filter' do_det do_label w h rest labelled))))"

text \<open>
  \<open>YoloE.plot_dets\<close>. The background is chosen once: black, blurred or the original
  image; asking for both black and blurred raises \<open>ValueError\<close>.
\<close>

definition plot_dets ::
  "cv2 \<Rightarrow> image \<Rightarrow> dets \<Rightarrow> string list option \<Rightarrow> bool \<Rightarrow> bool \<Rightarrow> bool \<Rightarrow> bool \<Rightarrow> bool \<Rightarrow>
   real \<Rightarrow> real option \<Rightarrow> error + image" where
  "plot_dets cv img dets filter' do_seg do_det do_label remove_background do_blur alpha blur_sigma =
     (let classes = names dets;
          h = shape_h img; w = shape_w img;
          overlay = zeros_like img;
          mask_all = zeros_hw h w
      in if remove_background \<and> do_blur then Inl ValueError
         else
           (let sigma = (case blur_sigma of None \<Rightarrow> 0 | Some v \<Rightarrow> v);
                base = (if remove_background then zeros_like img
                        else if do_blur \<and> sigma > 0 then GaussianBlur cv img sigma
                        else img);
                result = base;
                zipped = zip3 (boxes_cls dets) (boxes_xyxy dets) (masks dets)
            in case build_masks cv classes filter' do_seg zipped (mask_all, overlay) of
                 Inl e \<Rightarrow> Inl e
               | Inr (mask_all', overlay') \<Rightarrow>
                   (case (if np_any mask_all'
                          then (if do_seg
                                then paste_masked mask_all'
                                       (addWeighted cv img (1 - alpha) overlay' alpha 0) result
                                else paste_masked mask_all' img result)
                          else Inr result) of
                      Inl e \<Rightarrow> Inl e
                    | Inr pasted \<Rightarrow>
                        (if do_det \<or> do_label
                         then draw_boxes cv classes filter' do_det do_label (int w) (int h)
                                zipped pasted
                         else Inr pasted))))"

text \<open>
  A stand-in for OpenCV whose primitives leave their first argument alone. It only
  instantiates the concrete examples below, none of which reaches a call of OpenCV.
\<close>

definition cv2_identity :: cv2 where
  "cv2_identity =
     \<lparr>GaussianBlur = (\<lambda>img sigma. img),
      fillPoly_mask = (\<lambda>m poly v. m),
      fillPoly = (\<lambda>img poly c. img),
      addWeighted = (\<lambda>a wa b wb g. a),
      rectangle = (\<lambda>img p1 p2 c t. img),
      getTextSize = (\<lambda>txt. ((0, 0), 0)),
      putText = (\<lambda>img txt org c t. img)\<rparr>"

definition no_dets :: dets where
  "no_dets = \<lparr>names = [''person''], boxes_cls = [], boxes_xyxy = [], masks = []\<rparr>"

definition grey_pixel_image :: image where
  "grey_pixel_image = [[[1, 1, 1]]]"

section \<open>modules/YoloE.py: the engine\<close>

record BBox =
  cls :: string
  bbox :: "(int \<times> int \<times> int \<times> int) list"

record AnnotatedFrame =
  image :: image
  num_detections :: int
  detections :: "BBox list"

record Framedata =
  orig_frame :: image
  do_seg :: bool
  do_det :: bool
  do_label :: bool
  rm_background :: bool
  do_blur :: bool


text \<open>
  The attributes of a \<open>YoloE\<close> object that its methods read and write. \<open>input_q\<close> carries
  frames and the sentinel \<open>None\<close>.
\<close>

record YoloE =
  self_stopped :: bool
  self_outstanding_frames :: int
  input_q :: "Framedata option list"
  middle_q :: "image list"
  output_q :: "AnnotatedFrame list"
  self_do_seg :: bool
  self_do_det :: bool
  self_do_label :: bool
  self_rm_background :: bool
  self_do_blur :: bool
  self_darkness :: real
  self_blur_sigma :: real
  classes :: "string list"
  self_selected_classes :: "string list"

subsection \<open>Property setters\<close>

definition set_darkness :: "YoloE \<Rightarrow> pyval \<Rightarrow> error + YoloE" where
  "set_darkness s val =
     (case val of
        PyNone \<Rightarrow> Inl TypeError
      | PyNum v \<Rightarrow> (if v < 0 \<or> v > 1 then Inr s else Inr (s\<lparr>self_darkness := v\<rparr>)))"

definition set_blur_sigma :: "YoloE \<Rightarrow> pyval \<Rightarrow> error + YoloE" where
  "set_blur_sigma s val =
     (case val of
        PyNone \<Rightarrow> Inl TypeError
      | PyNum v \<Rightarrow> (if v < 0 then Inr s else Inr (s\<lparr>self_blur_sigma := v\<rparr>)))"

text \<open>The loop of the \<open>selected_classes\<close> setter: it returns at the first unknown name.\<close>

fun all_valid :: "string list \<Rightarrow> string list \<Rightarrow> bool" where
  "all_valid [] known = True"
| "all_valid (clas # rest) known = (if clas \<notin> set known then False else all_valid rest known)"

definition set_selected_classes :: "YoloE \<Rightarrow> string list \<Rightarrow> YoloE" where
  "set_selected_classes s cs =
     (if all_valid cs (classes s) then s\<lparr>self_selected_classes := cs\<rparr> else s)"

subsection \<open>Bounded queues\<close>

text \<open>
  \<open>queue.Queue\<close> as seen by one call during which no other thread touches the queue:
  the call returns, raises, or waits on the queue (\<open>Blocks\<close>) until another thread makes
  room or delivers an item.
\<close>

datatype 'a outcome = Returns 'a | Raises error | Blocks

definition queue_put :: "'a list \<Rightarrow> nat \<Rightarrow> 'a \<Rightarrow> bool \<Rightarrow> real option \<Rightarrow> 'a list outcome" where
  "queue_put q maxsize item block timeout =
     (if \<not> block then (if length q \<ge> maxsize then Raises Full else Returns (q @ [item]))
      else (case timeout of
              None \<Rightarrow> (if length q \<ge> maxsize then Blocks else Returns (q @ [item]))
            | Some t \<Rightarrow>
                (if t < 0 then Raises ValueError
                 else if length q \<ge> maxsize then Raises Full
                 else Returns (q @ [item]))))"

definition queue_get :: "'a list \<Rightarrow> bool \<Rightarrow> real option \<Rightarrow> ('a \<times> 'a list) outcome" where
  "queue_get q block timeout =
     (if \<not> block then (case q of [] \<Rightarrow> Raises Empty | x # rest \<Rightarrow> Returns (x, rest))
      else (case timeout of
              None \<Rightarrow> (case q of [] \<Rightarrow> Blocks | x # rest \<Rightarrow> Returns (x, rest))
            | Some t \<Rightarrow>
                (if t < 0 then Raises ValueError
                 else (case q of [] \<Rightarrow> Raises Empty | x # rest \<Rightarrow> Returns (x, rest)))))"

subsection \<open>put, get, stop\<close>

definition put :: "YoloE \<Rightarrow> Framedata \<Rightarrow> bool \<Rightarrow> real option \<Rightarrow> YoloE outcome" where
  "put s data block timeout =
     (if self_stopped s then Returns s
      else (case queue_put (input_q s) 1 (Some data) block timeout of
              Returns q \<Rightarrow>
                Returns (s\<lparr>input_q := q,
                           self_outstanding_frames := self_outstanding_frames s + 1\<rparr>)
            | Raises e \<Rightarrow> Raises e
            | Blocks \<Rightarrow> Blocks))"

definition get :: "YoloE \<Rightarrow> bool \<Rightarrow> real option \<Rightarrow> (AnnotatedFrame \<times> YoloE) outcome" where
  "get s block timeout =
     (case queue_get (output_q s) block timeout of
        Returns (annotated_frame, q) \<Rightarrow>
          Returns (annotated_frame,
                   s\<lparr>output_q := q, self_outstanding_frames := self_outstanding_frames s - 1\<rparr>)
      | Raises e \<Rightarrow> Raises e
      | Blocks \<Rightarrow> Blocks)"

text \<open>
  The drain loop of \<open>stop\<close>: \<open>while self._outstanding_frames > 0\<close>, with \<open>queue.Empty\<close>
  caught and the loop continued. The loop need not end, so its value is an option and
  \<open>None\<close> stands for a loop that runs forever.
\<close>

partial_function (option) drain :: "YoloE \<Rightarrow> YoloE outcome option" where
  "drain s =
     (if self_outstanding_frames s > 0
      then (case get s True (Some (1 / 10)) of
              Returns (annotated_frame, s') \<Rightarrow> drain s'
            | Raises e \<Rightarrow> (if e = Empty then drain s else Some (Raises e))
            | Blocks \<Rightarrow> Some Blocks)
      else Some (Returns s))"

definition stop :: "YoloE \<Rightarrow> YoloE outcome option" where
  "stop s =
     (if self_stopped s then Some (Returns s)
      else (case drain s of
              None \<Rightarrow> None
            | Some (Returns s1) \<Rightarrow>
                (case queue_put (input_q s1) 1 None True None of
                   Returns q \<Rightarrow> Some (Returns (s1\<lparr>input_q := q, self_stopped := True\<rparr>))
                 | Raises e \<Rightarrow> Some (Raises e)
                 | Blocks \<Rightarrow> Some Blocks)
            | Some (Raises e) \<Rightarrow> Some (Raises e)
            | Some Blocks \<Rightarrow> Some Blocks))"

subsection \<open>The output callback\<close>




text \<open>Example engines: freshly connected, and with a frame waiting for the renderer.\<close>

definition fresh_engine :: YoloE where
  "fresh_engine =
     \<lparr>self_stopped = False, self_outstanding_frames = 0, input_q = [], middle_q = [],
      output_q = [], self_do_seg = True, self_do_det = True, self_do_label = True,
      self_rm_background = False, self_do_blur = False, self_darkness = 3 / 10,
      self_blur_sigma = 0, classes = [''person''], self_selected_classes = [''person'']\<rparr>"

definition example_frame :: Framedata where
  "example_frame =
     \<lparr>orig_frame = grey_pixel_image, do_seg = True, do_det = True, do_label = True,
      rm_background = False, do_blur = False\<rparr>"


subsection \<open>Decimal strings are injective\<close>

lemma digits_nonempty: "digits n \<noteq> []"
  by (subst digits.simps) simp

lemma last_digits: "last (digits n) = char_of (48 + n mod 10)"
  by (subst digits.simps) simp

lemma butlast_digits: "butlast (digits n) = (if n < 10 then [] else digits (n div 10))"
  by (subst digits.simps) simp

lemma digit_char_inj: "a < 10 \<Longrightarrow> b < 10 \<Longrightarrow> char_of (48 + a) = (char_of (48 + b) :: char) \<Longrightarrow> a = (b::nat)"
  by (simp add: char_of_eq_iff take_bit_eq_mod)

lemma digits_inj: "digits n = digits m \<Longrightarrow> n = m"
proof (induction n arbitrary: m rule: digits.induct)
  case (1 n)
  from "1.prems" have l: "last (digits n) = last (digits m)" and b: "butlast (digits n) = butlast (digits m)"
    by simp_all
  from l have md: "n mod 10 = m mod 10"
    by (simp add: last_digits digit_char_inj)
  show ?case
  proof (cases "n < 10")
    case True
    with b have "m < 10"
      using digits_nonempty [of "m div 10"] by (auto simp add: butlast_digits split: if_splits)
    with True md show ?thesis by simp
  next
    case False
    with b have m10: "\<not> m < 10"
      using digits_nonempty [of "n div 10"] by (auto simp add: butlast_digits split: if_splits)
    with False b have "digits (n div 10) = digits (m div 10)" by (simp add: butlast_digits)
    with "1.IH" False have "n div 10 = m div 10" by simp
    with md show ?thesis by (metis div_mult_mod_eq)
  qed
qed

lemma hd_digits_not_slash: "hd (digits n) \<noteq> CHR ''/''"
proof (induction n rule: digits.induct)
  case (1 n)
  show ?case
  proof (cases "n < 10")
    case True
    then have "digits n = [char_of (48 + n)]" by (subst digits.simps) simp
    moreover have "char_of (48 + n) \<noteq> CHR ''/''"
      using True by (simp add: char_of_eq_iff take_bit_eq_mod) 
    ultimately show ?thesis by simp
  next
    case False
    then have "digits n = digits (n div 10) @ [char_of (48 + n mod 10)]" by (subst digits.simps) simp
    with 1 False show ?thesis by (simp add: digits_nonempty)
  qed
qed


section \<open>img-search.py: the alert engine\<close>

text \<open>
  A tracked object as \<open>check_for_search_targets\<close> reads it: its track ID and its name,
  which may be \<open>None\<close> or empty.
\<close>

record tracked_object =
  track_id :: int
  name :: "string option"

text \<open>
  An entry of the shared track map \<open>tracker.tracker_dict\<close>, with the attributes of the
  synthetic object built for an enrollment.
\<close>

record dict_entry =
  obj_bbox :: "int \<times> int \<times> int \<times> int"
  obj_keypoints :: "(int \<times> int) list"
  obj_name :: string
  embedding :: "real list option"

text \<open>
  The attributes of \<open>Demo\<close> read and written by the alert engine and by enrollment,
  together with what enrollment reaches through them: the track map of the tracker, the
  paths that exist on disk, the images written by \<open>cv2.imwrite\<close> and the calls of
  \<open>face_database.add_to_database\<close>. \<open>alert_timer\<close> is the single-shot timer: \<open>Some ms\<close>
  when it runs with that interval. \<open>printed_alerts\<close> lists the names of the alert lines
  printed by \<open>trigger_security_alert\<close>.
\<close>

record Demo =
  search_targets :: "string set"
  last_found_persons :: "int set"
  alert_label :: string
  alert_active :: bool
  alert_timer :: "nat option"
  printed_alerts :: "string list"
  target_name :: "string option"
  tracker_dict :: "int \<rightharpoonup> dict_entry"
  selected_directory :: "string option"
  db_path :: string
  files :: "string list"
  written_images :: "(string \<times> image) list"
  database :: "(real list \<times> string) list"

text \<open>Truth value of a string that may be \<open>None\<close>.\<close>

definition truthy :: "string option \<Rightarrow> bool" where
  "truthy v = (case v of None \<Rightarrow> False | Some str \<Rightarrow> str \<noteq> [])"

definition trigger_security_alert :: "Demo \<Rightarrow> string \<Rightarrow> Demo" where
  "trigger_security_alert s person_name =
     s\<lparr>printed_alerts := printed_alerts s @ [person_name],
       alert_label := ''TARGET DETECTED:'' @ [CHR 0x0A] @ person_name,
       alert_active := True,
       alert_timer := Some 5000\<rparr>"

definition clear_alert :: "Demo \<Rightarrow> Demo" where
  "clear_alert s = s\<lparr>alert_active := False, alert_label := ''NO ALERTS''\<rparr>"

text \<open>
  The timer is single-shot and its \<open>timeout\<close> signal is connected to \<open>clear_alert\<close>: when
  a running timer fires it stops and the slot runs.
\<close>

definition alert_timer_timeout :: "Demo \<Rightarrow> Demo" where
  "alert_timer_timeout s =
     (case alert_timer s of None \<Rightarrow> s | Some ms \<Rightarrow> clear_alert (s\<lparr>alert_timer := None\<rparr>))"

text \<open>The loop of \<open>check_for_search_targets\<close> over the activated tracker objects.\<close>

fun scan_objects :: "Demo \<Rightarrow> tracked_object list \<Rightarrow> int set \<Rightarrow> Demo \<times> int set" where
  "scan_objects s [] current_found_persons = (s, current_found_persons)"
| "scan_objects s (obj # rest) current_found_persons =
     (if truthy (name obj) \<and> the (name obj) \<in> search_targets s
      then scan_objects
             (if track_id obj \<notin> last_found_persons s
              then trigger_security_alert s (the (name obj)) else s)
             rest (insert (track_id obj) current_found_persons)
      else scan_objects s rest current_found_persons)"

definition check_for_search_targets :: "Demo \<Rightarrow> tracked_object list \<Rightarrow> Demo" where
  "check_for_search_targets s tracked_objects =
     (if search_targets s = {} then s
      else (case scan_objects s tracked_objects {} of
              (s', current_found_persons) \<Rightarrow> s'\<lparr>last_found_persons := current_found_persons\<rparr>))"

text \<open>One evaluation per frame, over the frames of a stream.\<close>

fun check_frames :: "Demo \<Rightarrow> tracked_object list list \<Rightarrow> Demo" where
  "check_frames s [] = s"
| "check_frames s (tracked_objects # later) =
     check_frames (check_for_search_targets s tracked_objects) later"

text \<open>
  The words of the specification, to compare the code with: the objects of a frame that
  show a search target, the track IDs visible now, and the objects whose track ID is
  visible now but was not in the previous evaluation.
\<close>

definition is_target :: "Demo \<Rightarrow> tracked_object \<Rightarrow> bool" where
  "is_target s obj = (truthy (name obj) \<and> the (name obj) \<in> search_targets s)"

definition visible_now :: "Demo \<Rightarrow> tracked_object list \<Rightarrow> int set" where
  "visible_now s tracked_objects = set (map track_id (filter (is_target s) tracked_objects))"

definition newly_visible :: "Demo \<Rightarrow> tracked_object list \<Rightarrow> tracked_object list" where
  "newly_visible s tracked_objects =
     filter (\<lambda>obj. track_id obj \<in> visible_now s tracked_objects - last_found_persons s)
       tracked_objects"

section \<open>img-search.py: enrollment\<close>

record face_data =
  bbox :: "int \<times> int \<times> int \<times> int"
  keypoints :: "(int \<times> int) list"

text \<open>\<open>xs[a:b]\<close> and \<open>image[y0:y1, x0:x1]\<close>\<close>

definition py_slice :: "'a list \<Rightarrow> int \<Rightarrow> int \<Rightarrow> 'a list" where
  "py_slice xs a b =
     (let n = int (length xs);
          lo = (if a < 0 then max (a + n) 0 else min a n);
          hi = (if b < 0 then max (b + n) 0 else min b n)
      in take (nat (hi - lo)) (drop (nat lo) xs))"

definition crop :: "image \<Rightarrow> int \<Rightarrow> int \<Rightarrow> int \<Rightarrow> int \<Rightarrow> image" where
  "crop img y_start y_end x_start x_end =
     map (\<lambda>row. py_slice row x_start x_end) (py_slice img y_start y_end)"

text \<open>\<open>cv2.cvtColor(img, cv2.COLOR_RGB2BGR)\<close> reverses the channels of every pixel.\<close>

definition cvtColor_RGB2BGR :: "image \<Rightarrow> image" where
  "cvtColor_RGB2BGR img = map (map rev) img"

text \<open>\<open>np.linalg.norm\<close> of a vector.\<close>

definition linalg_norm :: "real list \<Rightarrow> real" where
  "linalg_norm v = sqrt (sum_list (map (\<lambda>x. x * x) v))"

text \<open>\<open>os.path.join\<close> of two components on POSIX.\<close>

definition path_join :: "string \<Rightarrow> string \<Rightarrow> string" where
  "path_join a b =
     (if b \<noteq> [] \<and> hd b = CHR ''/'' then b
      else if a = [] \<or> last a = CHR ''/'' then a @ b
      else a @ ''/'' @ b)"

definition jpg_path :: "string \<Rightarrow> nat \<Rightarrow> string" where
  "jpg_path profile_path i = path_join profile_path (digits i @ ''.jpg'')"

lemma jpg_path_inj: "jpg_path p i = jpg_path p j \<Longrightarrow> i = j"
proof -
  assume eq: "jpg_path p i = jpg_path p j"
  have hi: "hd (digits i @ ''.jpg'') \<noteq> CHR ''/''" and hj: "hd (digits j @ ''.jpg'') \<noteq> CHR ''/''"
    by (simp_all add: hd_append digits_nonempty hd_digits_not_slash)
  from eq hi hj have "digits i @ ''.jpg'' = digits j @ ''.jpg''"
    by (simp add: jpg_path_def path_join_def split: if_splits)
  then show "i = j" by (simp add: digits_inj)
qed

text \<open>
  \<open>i = 0; while os.path.exists(os.path.join(profile_path, f"{i}.jpg")): i += 1\<close>. The
  paths on disk are finitely many, so the loop ends.
\<close>

function first_free :: "string list \<Rightarrow> string \<Rightarrow> nat \<Rightarrow> nat" where
  "first_free fs profile_path i =
     (if jpg_path profile_path i \<in> set fs then first_free fs profile_path (Suc i) else i)"
  by pat_completeness auto
termination
proof (relation "measure (\<lambda>(fs, p, i). card {j. i \<le> j \<and> jpg_path p j \<in> set fs})")
  show "wf (measure (\<lambda>(fs, p, i). card {j. i \<le> j \<and> jpg_path p j \<in> set fs}))"
    by simp
next
  fix fs :: "string list" and profile_path :: string and i :: nat
  assume here: "jpg_path profile_path i \<in> set fs"
  have "inj (jpg_path profile_path)"
    by (rule injI) (rule jpg_path_inj)
  then have fin: "finite {j. i \<le> j \<and> jpg_path profile_path j \<in> set fs}"
    by (intro finite_subset [OF _ finite_vimageI [of "set fs" "jpg_path profile_path"]]) auto
  have "{j. Suc i \<le> j \<and> jpg_path profile_path j \<in> set fs}
          \<subset> {j. i \<le> j \<and> jpg_path profile_path j \<in> set fs}"
  proof
    show "{j. Suc i \<le> j \<and> jpg_path profile_path j \<in> set fs}
            \<subseteq> {j. i \<le> j \<and> jpg_path profile_path j \<in> set fs}"
      by auto
    have "i \<in> {j. i \<le> j \<and> jpg_path profile_path j \<in> set fs}"
      using here by simp
    moreover have "i \<notin> {j. Suc i \<le> j \<and> jpg_path profile_path j \<in> set fs}"
      by simp
    ultimately show "{j. Suc i \<le> j \<and> jpg_path profile_path j \<in> set fs}
            \<noteq> {j. i \<le> j \<and> jpg_path profile_path j \<in> set fs}"
      by blast
  qed
  then have "card {j. Suc i \<le> j \<and> jpg_path profile_path j \<in> set fs}
               < card {j. i \<le> j \<and> jpg_path profile_path j \<in> set fs}"
    using fin by (rule psubset_card_mono [rotated])
  then show "((fs, profile_path, Suc i), (fs, profile_path, i))
               \<in> measure (\<lambda>(fs, p, i). card {j. i \<le> j \<and> jpg_path p j \<in> set fs})"
    by simp
qed

declare first_free.simps [simp del]


text \<open>
  What enrollment takes from its surroundings: the call of \<open>mxface.recognize_put\<close>, which
  may raise; what the recognition thread does to the track map before each poll that
  fits into the ten seconds of the waiting loop; the dialog \<open>database_viewer.add_profile\<close>
  with its effect on the disk; and the normal form of a path under \<open>pathlib.Path\<close>.
\<close>

record enroll_env =
  recognize_put ::
    "int \<times> image \<times> (int \<times> int \<times> int \<times> int) \<times> ((int \<times> int) \<times> (int \<times> int)) \<Rightarrow> error option"
  recognition :: "((int \<rightharpoonup> dict_entry) \<Rightarrow> (int \<rightharpoonup> dict_entry)) list"
  add_profile :: "string list \<Rightarrow> string option \<times> string list"
  Path :: "string \<Rightarrow> string"

datatype recognition_result = Embedding "real list" | RecognitionTimeout | RecognitionError error

text \<open>\<open>track_id = 999  # Special ID for manual uploads\<close>\<close>

definition upload_track_id :: int where
  "upload_track_id = 999"

definition crop_box :: "face_data \<Rightarrow> image \<Rightarrow> int \<times> int \<times> int \<times> int" where
  "crop_box face img =
     (case bbox face of
        (x, y, w, h) \<Rightarrow>
          (let margin = 10;
               bbox_size = max w h + 2 * margin;
               center_x = x + w div 2;
               center_y = y + h div 2;
               x_start = max 0 (center_x - bbox_size div 2);
               x_end = min (int (shape_w img)) (center_x + bbox_size div 2);
               y_start = max 0 (center_y - bbox_size div 2);
               y_end = min (int (shape_h img)) (center_y + bbox_size div 2)
           in (x_start, y_start, x_end, y_end)))"

definition cropped_frame :: "face_data \<Rightarrow> image \<Rightarrow> image" where
  "cropped_frame face img =
     (case crop_box face img of
        (x_start, y_start, x_end, y_end) \<Rightarrow> crop img y_start y_end x_start x_end)"

definition fake_obj :: "face_data \<Rightarrow> image \<Rightarrow> dict_entry" where
  "fake_obj face img =
     \<lparr>obj_bbox = crop_box face img, obj_keypoints = keypoints face, obj_name = ''Unknown'',
      embedding = Some (replicate 128 0)\<rparr>"

text \<open>
  The waiting loop: each poll looks the track up under the lock and takes its embedding
  when it is not \<open>None\<close> and has a positive norm.
\<close>

fun poll_embedding ::
  "((int \<rightharpoonup> dict_entry) \<Rightarrow> (int \<rightharpoonup> dict_entry)) list \<Rightarrow> (int \<rightharpoonup> dict_entry) \<Rightarrow> int \<Rightarrow>
   recognition_result \<times> (int \<rightharpoonup> dict_entry)" where
  "poll_embedding [] td tid = (RecognitionTimeout, td)"
| "poll_embedding (step # later) td tid =
     (let td' = step td
      in case td' tid of
           None \<Rightarrow> poll_embedding later td' tid
         | Some obj \<Rightarrow>
             (case embedding obj of
                None \<Rightarrow> poll_embedding later td' tid
              | Some e \<Rightarrow>
                  (if linalg_norm e > 0 then (Embedding e, td')
                   else poll_embedding later td' tid)))"

text \<open>The \<open>try\<close> block: every exception in it is caught and reported as a recognition error.\<close>

definition try_recognition ::
  "enroll_env \<Rightarrow> (int \<rightharpoonup> dict_entry) \<Rightarrow> face_data \<Rightarrow> image \<Rightarrow> int \<Rightarrow>
   recognition_result \<times> (int \<rightharpoonup> dict_entry)" where
  "try_recognition env td face img tid =
     (case bbox face of
        (x, y, w, h) \<Rightarrow>
          (case py_index (keypoints face) 0 of
             Inl e \<Rightarrow> (RecognitionError e, td)
           | Inr k0 \<Rightarrow>
               (case py_index (keypoints face) 1 of
                  Inl e \<Rightarrow> (RecognitionError e, td)
                | Inr k1 \<Rightarrow>
                    (case recognize_put env (tid, img, (x, y, x + w, y + h), (k0, k1)) of
                       Some e \<Rightarrow> (RecognitionError e, td)
                     | None \<Rightarrow> poll_embedding (recognition env) td tid))))"

text \<open>
  Enrollment up to the end of the \<open>finally\<close> block: the synthetic object is stored under
  the upload ID, recognition is awaited, and the entry under the upload ID is deleted.
\<close>

definition recognition_of ::
  "enroll_env \<Rightarrow> Demo \<Rightarrow> face_data \<Rightarrow> image \<Rightarrow> recognition_result \<times> Demo" where
  "recognition_of env s face img =
     (case try_recognition env ((tracker_dict s)(upload_track_id \<mapsto> fake_obj face img))
             face img upload_track_id of
        (res, td) \<Rightarrow> (res, s\<lparr>tracker_dict := td(upload_track_id := None)\<rparr>))"

text \<open>The profile directory: the selected one, else the target name, else a new profile.\<close>

definition resolve_profile_path :: "enroll_env \<Rightarrow> Demo \<Rightarrow> string option \<times> Demo" where
  "resolve_profile_path env s =
     (if \<not> truthy (selected_directory s)
      then (if truthy (target_name s)
            then (let profile_path = path_join (db_path s) (the (target_name s))
                  in (Some profile_path,
                      if profile_path \<notin> set (files s) then s\<lparr>files := profile_path # files s\<rparr>
                      else s))
            else (case add_profile env (files s) of
                    (new_profile, fs) \<Rightarrow>
                      (if \<not> truthy new_profile then (None, s\<lparr>files := fs\<rparr>)
                       else (Some (path_join (db_path s) (the new_profile)), s\<lparr>files := fs\<rparr>))))
      else (selected_directory s, s))"

definition save_to_database :: "enroll_env \<Rightarrow> Demo \<Rightarrow> image \<Rightarrow> real list \<Rightarrow> Demo" where
  "save_to_database env s cropped e =
     (case resolve_profile_path env s of
        (None, s1) \<Rightarrow> s1
      | (Some profile_path, s1) \<Rightarrow>
          (if profile_path \<in> set (files s1) \<and> Path env profile_path \<noteq> Path env (db_path s1)
           then (let i = first_free (files s1) profile_path 0;
                     filename = jpg_path profile_path i
                 in s1\<lparr>files := filename # files s1,
                       written_images := written_images s1 @ [(filename, cvtColor_RGB2BGR cropped)],
                       database := database s1 @ [(e, filename)]\<rparr>)
           else s1))"

definition process_face_like_mouse_click ::
  "enroll_env \<Rightarrow> Demo \<Rightarrow> face_data \<Rightarrow> image \<Rightarrow> Demo" where
  "process_face_like_mouse_click env s face img =
     (case recognition_of env s face img of
        (Embedding e, s1) \<Rightarrow> save_to_database env s1 (cropped_frame face img) e
      | (RecognitionTimeout, s1) \<Rightarrow> s1
      | (RecognitionError err, s1) \<Rightarrow> s1)"

subsection \<open>Example states\<close>

definition alice_watch :: Demo where
  "alice_watch =
     \<lparr>search_targets = {''Alice''}, last_found_persons = {}, alert_label = ''NO ALERTS'',
      alert_active = False, alert_timer = None, printed_alerts = [], target_name = None,
      tracker_dict = Map.empty, selected_directory = None, db_path = ''assets/db'',
      files = [''assets/db''], written_images = [], database = []\<rparr>"

definition alice_track :: "int \<Rightarrow> tracked_object" where
  "alice_track tid = \<lparr>track_id = tid, name = Some ''Alice''\<rparr>"

definition rgb_pixel_image :: image where
  "rgb_pixel_image = [[[1, 2, 3]]]"

definition corner_face :: face_data where
  "corner_face = \<lparr>bbox = (0, 0, 1, 1), keypoints = [(0, 0), (0, 0)]\<rparr>"



text \<open>The recognition thread never answers within the ten seconds.\<close>

definition env_silent :: enroll_env where
  "env_silent =
     \<lparr>recognize_put = (\<lambda>request. None),
      recognition = [(\<lambda>td. td), (\<lambda>td. td)],
      add_profile = (\<lambda>fs. (None, fs)),
      Path = (\<lambda>p. p)\<rparr>"


definition bob_entry :: dict_entry where
  "bob_entry =
     \<lparr>obj_bbox = (5, 5, 9, 9), obj_keypoints = [(6, 6), (8, 6)], obj_name = ''Bob'',
      embedding = Some [1]\<rparr>"

definition live_track_999 :: Demo where
  "live_track_999 = alice_watch\<lparr>tracker_dict := [999 \<mapsto> bob_entry]\<rparr>"


section \<open>Properties of the renderer\<close>

text \<open>
  C1: for every frame, detection result and choice of the other flags, \<open>plot_dets\<close> called
  with \<open>remove_background=True\<close> and \<open>do_blur=True\<close> raises the configuration error
  (\<open>ValueError\<close>); it returns no image, so neither mode is chosen by precedence.
\<close>

theorem plot_dets_rejects_both_modes:
  "plot_dets cv img d flt seg_on det_on label_on True True alpha sigma = Inl ValueError"
  by (simp add: plot_dets_def)




text \<open>
  C10, as claimed, fails when the remaining arguments ask for background removal: with
  \<open>do_blur=True\<close> the call raises, with \<open>do_blur=False\<close> it renders the black background.
\<close>

theorem blur_sigma_zero_counterexample:
  "plot_dets cv2_identity grey_pixel_image no_dets None True True True True True (1 / 4) (Some 0)
     = Inl ValueError \<and>
   plot_dets cv2_identity grey_pixel_image no_dets None True True True True False (1 / 4) (Some 0)
     = Inr [[[0, 0, 0]]]"
  by (simp add: plot_dets_def no_dets_def grey_pixel_image_def zeros_like_def zeros_hw_def
      shape_h_def shape_w_def np_any_def)

text \<open>
  C10, amended: with \<open>remove_background=False\<close>, for every frame and detection result,
  \<open>plot_dets\<close> with \<open>do_blur=True\<close> and a \<open>blur_sigma\<close> of 0 or \<open>None\<close> gives the same
  result as with \<open>do_blur=False\<close> and the same remaining arguments.
\<close>

theorem blur_sigma_zero_is_normal:
  assumes "sigma = None \<or> sigma = Some 0"
  shows "plot_dets cv img d flt seg_on det_on label_on False True alpha sigma =
         plot_dets cv img d flt seg_on det_on label_on False False alpha sigma"
  using assms by (auto simp add: plot_dets_def)

theorem blur_sigma_zero_is_normal_witness:
  "(Some (0::real) = None \<or> Some (0::real) = Some 0) \<and>
   plot_dets cv2_identity grey_pixel_image no_dets None True True True False True (1 / 4) (Some 0) =
   plot_dets cv2_identity grey_pixel_image no_dets None True True True False False (1 / 4) (Some 0)"
proof -
  have h: "Some (0::real) = None \<or> Some (0::real) = Some 0" by simp
  show ?thesis
    using h blur_sigma_zero_is_normal [OF h, of cv2_identity grey_pixel_image no_dets None
        True True True "1 / 4"]
    by simp
qed

section \<open>Properties of the engine\<close>

lemma all_valid_iff: "all_valid cs known \<longleftrightarrow> set cs \<subseteq> set known"
  by (induction cs) auto

text \<open>
  C9: an out-of-range assignment (a darkness outside \<open>[0, 1]\<close>, a negative blur sigma, a
  selection with a name that is not in the class list) returns without an exception and
  leaves the engine as it was; an in-range assignment stores the assigned value.
\<close>

theorem setters_keep_or_store:
  "(v1 < 0 \<or> 1 < v1 \<longrightarrow> set_darkness s (PyNum v1) = Inr s) \<and>
   (0 \<le> v2 \<and> v2 \<le> 1 \<longrightarrow> set_darkness s (PyNum v2) = Inr (s\<lparr>self_darkness := v2\<rparr>)) \<and>
   (v3 < 0 \<longrightarrow> set_blur_sigma s (PyNum v3) = Inr s) \<and>
   (0 \<le> v4 \<longrightarrow> set_blur_sigma s (PyNum v4) = Inr (s\<lparr>self_blur_sigma := v4\<rparr>)) \<and>
   (\<not> set cs1 \<subseteq> set (classes s) \<longrightarrow> set_selected_classes s cs1 = s) \<and>
   (set cs2 \<subseteq> set (classes s) \<longrightarrow>
      set_selected_classes s cs2 = s\<lparr>self_selected_classes := cs2\<rparr>)"
  by (simp add: set_darkness_def set_blur_sigma_def set_selected_classes_def all_valid_iff)

theorem setters_keep_or_store_witness:
  "set_darkness fresh_engine (PyNum 2) = Inr fresh_engine \<and>
   set_darkness fresh_engine (PyNum (1 / 2)) = Inr (fresh_engine\<lparr>self_darkness := 1 / 2\<rparr>) \<and>
   set_blur_sigma fresh_engine (PyNum (- 1)) = Inr fresh_engine \<and>
   set_blur_sigma fresh_engine (PyNum 3) = Inr (fresh_engine\<lparr>self_blur_sigma := 3\<rparr>) \<and>
   set_selected_classes fresh_engine [''dog''] = fresh_engine \<and>
   set_selected_classes fresh_engine [''person''] =
     fresh_engine\<lparr>self_selected_classes := [''person'']\<rparr>"
  using setters_keep_or_store [of 2 fresh_engine "1 / 2" "- 1" 3 "[''dog'']" "[''person'']"]
  by (simp add: fresh_engine_def)



lemma drain_idle: "\<not> self_outstanding_frames s > 0 \<Longrightarrow> drain s = Some (Returns s)"
  by (subst drain.simps) simp

lemma stop_sets_stopped: "stop s = Some (Returns s') \<Longrightarrow> self_stopped s'"
  by (auto simp add: stop_def queue_put_def split: if_splits option.splits outcome.splits)

text \<open>
  C4, as claimed, fails: a \<open>put\<close> after \<open>stop\<close> has completed returns normally, as a
  successful \<open>put\<close> does, and the caller is given no error.
\<close>

theorem put_after_stop_counterexample:
  "stop fresh_engine = Some (Returns (fresh_engine\<lparr>input_q := [None], self_stopped := True\<rparr>)) \<and>
   put (fresh_engine\<lparr>input_q := [None], self_stopped := True\<rparr>) example_frame True None
     = Returns (fresh_engine\<lparr>input_q := [None], self_stopped := True\<rparr>)"
  by (simp add: stop_def drain_idle queue_put_def put_def fresh_engine_def)

text \<open>
  C4, amended: every \<open>put\<close> made after \<open>stop\<close> has completed returns without raising and
  leaves the engine unchanged: no frame is enqueued and the counter of outstanding frames
  is not incremented. The frame is dropped without a signal to the caller.
\<close>

theorem put_after_stop_returns_unchanged:
  assumes "stop s = Some (Returns s')"
  shows "self_stopped s' \<and> put s' data block timeout = Returns s'"
  using stop_sets_stopped [OF assms] by (simp add: put_def)

theorem put_after_stop_returns_unchanged_witness:
  "stop fresh_engine = Some (Returns (fresh_engine\<lparr>input_q := [None], self_stopped := True\<rparr>)) \<and>
   put (fresh_engine\<lparr>input_q := [None], self_stopped := True\<rparr>) example_frame False (Some 1)
     = Returns (fresh_engine\<lparr>input_q := [None], self_stopped := True\<rparr>)"
proof -
  have h: "stop fresh_engine =
             Some (Returns (fresh_engine\<lparr>input_q := [None], self_stopped := True\<rparr>))"
    by (simp add: stop_def drain_idle queue_put_def fresh_engine_def)
  show ?thesis
    using h put_after_stop_returns_unchanged [OF h, of example_frame False "Some 1"]
    by simp
qed

section \<open>Properties of the alert engine\<close>

lemma trigger_keeps [simp]:
  "search_targets (trigger_security_alert s n) = search_targets s"
  "last_found_persons (trigger_security_alert s n) = last_found_persons s"
  by (simp_all add: trigger_security_alert_def)

lemma is_target_trigger [simp]: "is_target (trigger_security_alert s n) = is_target s"
  by (rule ext) (simp add: is_target_def)

lemma scan_objects_found:
  "snd (scan_objects s objs cur) = cur \<union> visible_now s objs"
  by (induction objs arbitrary: s cur)
     (auto simp add: visible_now_def is_target_def)

lemma scan_objects_keeps:
  "search_targets (fst (scan_objects s objs cur)) = search_targets s \<and>
   last_found_persons (fst (scan_objects s objs cur)) = last_found_persons s"
  by (induction objs arbitrary: s cur) auto

lemma scan_objects_printed:
  "printed_alerts (fst (scan_objects s objs cur)) =
     printed_alerts s @
     map (\<lambda>obj. the (name obj))
       (filter (\<lambda>obj. is_target s obj \<and> track_id obj \<notin> last_found_persons s) objs)"
proof (induction objs arbitrary: s cur)
  case Nil
  then show ?case by simp
next
  case (Cons obj rest)
  show ?case
  proof (cases "is_target s obj \<and> track_id obj \<notin> last_found_persons s")
    case True
    then show ?thesis
      using Cons.IH [of "trigger_security_alert s (the (name obj))"]
      by (simp add: is_target_def) (simp add: trigger_security_alert_def)
  next
    case False
    then show ?thesis
      using Cons.IH [of s] by (auto simp add: is_target_def)
  qed
qed

lemma newly_visible_distinct:
  assumes "distinct (map track_id objs)"
  shows "newly_visible s objs =
           filter (\<lambda>obj. is_target s obj \<and> track_id obj \<notin> last_found_persons s) objs"
proof -
  have "\<And>obj. obj \<in> set objs \<Longrightarrow> track_id obj \<in> visible_now s objs \<longleftrightarrow> is_target s obj"
  proof
    fix obj assume o: "obj \<in> set objs" and "track_id obj \<in> visible_now s objs"
    then obtain obj' where o': "obj' \<in> set objs" "is_target s obj'" "track_id obj' = track_id obj"
      by (auto simp add: visible_now_def)
    with o assms have "obj' = obj"
      by (meson distinct_map inj_onD)
    with o' show "is_target s obj" by simp
  next
    fix obj assume "obj \<in> set objs" and "is_target s obj"
    then show "track_id obj \<in> visible_now s objs" by (auto simp add: visible_now_def)
  qed
  then show ?thesis
    unfolding newly_visible_def by (intro filter_cong) auto
qed

lemma check_printed:
  "printed_alerts (check_for_search_targets s objs) =
     printed_alerts s @
     map (\<lambda>obj. the (name obj))
       (filter (\<lambda>obj. is_target s obj \<and> track_id obj \<notin> last_found_persons s) objs)"
proof (cases "search_targets s = {}")
  case True
  then show ?thesis by (simp add: check_for_search_targets_def is_target_def)
next
  case False
  then show ?thesis
    using scan_objects_printed [of s objs "{}"]
    by (simp add: check_for_search_targets_def case_prod_beta)
qed

lemma check_found:
  "search_targets s \<noteq> {} \<Longrightarrow>
   last_found_persons (check_for_search_targets s objs) = visible_now s objs"
  using scan_objects_found [of s objs "{}"]
  by (simp add: check_for_search_targets_def case_prod_beta)

lemma check_targets [simp]:
  "search_targets (check_for_search_targets s objs) = search_targets s"
  using scan_objects_keeps [of s objs "{}"]
  by (simp add: check_for_search_targets_def case_prod_beta)

lemma is_target_check [simp]: "is_target (check_for_search_targets s objs) = is_target s"
  by (rule ext) (simp add: is_target_def)


lemma filter_conj_split: "filter (\<lambda>x. P x \<and> Q x) xs = filter Q (filter P xs)"
  by (induction xs) auto

lemma sole_target_frame:
  assumes "filter (is_target s) objs = [obj]"
  shows "printed_alerts (check_for_search_targets s objs) =
           (if track_id obj \<in> last_found_persons s then printed_alerts s
            else printed_alerts s @ [the (name obj)])"
    and "last_found_persons (check_for_search_targets s objs) = {track_id obj}"
proof -
  have "obj \<in> set (filter (is_target s) objs)" using assms by simp
  then have "is_target s obj" by simp
  then have ne: "search_targets s \<noteq> {}" by (auto simp add: is_target_def)
  show "printed_alerts (check_for_search_targets s objs) =
           (if track_id obj \<in> last_found_persons s then printed_alerts s
            else printed_alerts s @ [the (name obj)])"
    using assms by (simp add: check_printed filter_conj_split)
  show "last_found_persons (check_for_search_targets s objs) = {track_id obj}"
    using assms ne by (simp add: check_found visible_now_def)
qed

lemma steady_frames:
  assumes "\<forall>objs \<in> set frames. filter (is_target s) objs = [obj]"
      and "track_id obj \<in> last_found_persons s"
  shows "printed_alerts (check_frames s frames) = printed_alerts s \<and>
         track_id obj \<in> last_found_persons (check_frames s frames) \<and>
         is_target (check_frames s frames) = is_target s"
  using assms
proof (induction frames arbitrary: s)
  case Nil
  then show ?case by simp
next
  case (Cons objs later)
  let ?s' = "check_for_search_targets s objs"
  from Cons.prems have one: "filter (is_target s) objs = [obj]" by simp
  have p: "printed_alerts ?s' = printed_alerts s"
    using sole_target_frame(1) [OF one] Cons.prems(2) by simp
  have l: "track_id obj \<in> last_found_persons ?s'"
    using sole_target_frame(2) [OF one] by simp
  have "\<forall>objs \<in> set later. filter (is_target ?s') objs = [obj]"
    using Cons.prems(1) by simp
  from Cons.IH [OF this l] p show ?case by simp
qed

lemma continuous_track_one_alert:
  assumes "frames \<noteq> []"
      and "\<forall>objs \<in> set frames. filter (is_target s) objs = [obj]"
      and "track_id obj \<notin> last_found_persons s"
  shows "printed_alerts (check_frames s frames) = printed_alerts s @ [the (name obj)] \<and>
         track_id obj \<in> last_found_persons (check_frames s frames) \<and>
         is_target (check_frames s frames) = is_target s"
proof -
  from assms(1) obtain objs later where fr: "frames = objs # later" by (cases frames) auto
  let ?s' = "check_for_search_targets s objs"
  from assms(2) fr have one: "filter (is_target s) objs = [obj]" by simp
  have p: "printed_alerts ?s' = printed_alerts s @ [the (name obj)]"
    using sole_target_frame(1) [OF one] assms(3) by simp
  have l: "track_id obj \<in> last_found_persons ?s'"
    using sole_target_frame(2) [OF one] by simp
  have "\<forall>objs \<in> set later. filter (is_target ?s') objs = [obj]"
    using assms(2) fr by simp
  from steady_frames [OF this l] p fr show ?thesis by simp
qed

lemma check_frames_append:
  "check_frames s (frames @ later) = check_frames (check_frames s frames) later"
  by (induction frames arbitrary: s) auto

lemma last_after_frames:
  assumes "frames \<noteq> []"
      and "\<forall>objs \<in> set frames. filter (is_target s) objs = [obj]"
  shows "last_found_persons (check_frames s frames) = {track_id obj}"
  using assms
proof (induction frames arbitrary: s)
  case Nil
  then show ?case by simp
next
  case (Cons objs later)
  let ?s' = "check_for_search_targets s objs"
  from Cons.prems have one: "filter (is_target s) objs = [obj]" by simp
  show ?case
  proof (cases "later = []")
    case True
    then show ?thesis using sole_target_frame(2) [OF one] by simp
  next
    case False
    have "\<forall>objs \<in> set later. filter (is_target ?s') objs = [obj]"
      using Cons.prems(2) by simp
    from Cons.IH [OF False this] show ?thesis by simp
  qed
qed

text \<open>
  C6: in every evaluated frame whose track IDs are distinct, an alert is raised for exactly
  the objects whose track ID is visible now as a search target and was not in the set of
  the previous evaluation, and that set becomes the set visible now. Hence a target that
  stays visible under one track ID over consecutive frames raises one alert, and its
  showing up under a new track ID raises one more. Each alert sets the alert state and
  starts the single-shot timer with 5000 ms; when the timer fires the alert state is
  cleared and the timer is idle.
\<close>

theorem alert_edge_triggered:
  "(distinct (map track_id objs) \<longrightarrow>
      printed_alerts (check_for_search_targets s objs) =
        printed_alerts s @ map (\<lambda>obj. the (name obj)) (newly_visible s objs)) \<and>
   (search_targets s \<noteq> {} \<longrightarrow>
      last_found_persons (check_for_search_targets s objs) = visible_now s objs) \<and>
   (frames \<noteq> [] \<and> (\<forall>f \<in> set frames. filter (is_target s) f = [obj]) \<and>
    track_id obj \<notin> last_found_persons s \<longrightarrow>
      printed_alerts (check_frames s frames) = printed_alerts s @ [the (name obj)] \<and>
      (filter (is_target s) f' = [obj'] \<and> track_id obj' \<noteq> track_id obj \<longrightarrow>
         printed_alerts (check_frames s (frames @ [f'])) =
           printed_alerts s @ [the (name obj), the (name obj')])) \<and>
   alert_active (trigger_security_alert s person_name) \<and>
   alert_timer (trigger_security_alert s person_name) = Some 5000 \<and>
   \<not> alert_active (alert_timer_timeout (trigger_security_alert s person_name)) \<and>
   alert_timer (alert_timer_timeout (trigger_security_alert s person_name)) = None"
proof (intro conjI impI)
  assume "distinct (map track_id objs)"
  then show "printed_alerts (check_for_search_targets s objs) =
        printed_alerts s @ map (\<lambda>obj. the (name obj)) (newly_visible s objs)"
    by (simp add: check_printed newly_visible_distinct)
next
  assume "search_targets s \<noteq> {}"
  then show "last_found_persons (check_for_search_targets s objs) = visible_now s objs"
    by (rule check_found)
next
  assume a: "frames \<noteq> [] \<and> (\<forall>f \<in> set frames. filter (is_target s) f = [obj]) \<and>
    track_id obj \<notin> last_found_persons s"
  then show "printed_alerts (check_frames s frames) = printed_alerts s @ [the (name obj)]"
    using continuous_track_one_alert [of frames s obj] by simp
next
  assume a: "frames \<noteq> [] \<and> (\<forall>f \<in> set frames. filter (is_target s) f = [obj]) \<and>
    track_id obj \<notin> last_found_persons s"
    and b: "filter (is_target s) f' = [obj'] \<and> track_id obj' \<noteq> track_id obj"
  let ?s' = "check_frames s frames"
  from a have c: "printed_alerts ?s' = printed_alerts s @ [the (name obj)]"
    and t: "is_target ?s' = is_target s"
    using continuous_track_one_alert [of frames s obj] by simp_all
  from a have l: "last_found_persons ?s' = {track_id obj}"
    using last_after_frames [of frames s obj] by simp
  from b t have one: "filter (is_target ?s') f' = [obj']" by simp
  show "printed_alerts (check_frames s (frames @ [f'])) =
           printed_alerts s @ [the (name obj), the (name obj')]"
    using sole_target_frame(1) [OF one] b c l by (simp add: check_frames_append)
qed (simp_all add: trigger_security_alert_def alert_timer_timeout_def clear_alert_def)

theorem alert_edge_triggered_witness:
  "distinct (map track_id [alice_track 1]) \<and>
   search_targets alice_watch \<noteq> {} \<and>
   filter (is_target alice_watch) [alice_track 1] = [alice_track 1] \<and>
   track_id (alice_track 1) \<notin> last_found_persons alice_watch \<and>
   filter (is_target alice_watch) [alice_track 2] = [alice_track 2] \<and>
   track_id (alice_track 2) \<noteq> track_id (alice_track 1) \<and>
   printed_alerts (check_for_search_targets alice_watch [alice_track 1]) = [''Alice''] \<and>
   last_found_persons (check_for_search_targets alice_watch [alice_track 1]) = {1} \<and>
   printed_alerts (check_frames alice_watch [[alice_track 1], [alice_track 1], [alice_track 1]])
     = [''Alice''] \<and>
   printed_alerts
     (check_frames alice_watch ([[alice_track 1], [alice_track 1], [alice_track 1]] @ [[alice_track 2]]))
     = [''Alice'', ''Alice'']"
  using alert_edge_triggered [of "[alice_track 1]" alice_watch
      "[[alice_track 1], [alice_track 1], [alice_track 1]]" "alice_track 1"
      "[alice_track 2]" "alice_track 2" "''Alice''"]
  by (simp add: alice_watch_def alice_track_def is_target_def truthy_def newly_visible_def
      visible_now_def)

section \<open>Properties of enrollment\<close>

lemma sum_squares_nonneg: "0 \<le> sum_list (map (\<lambda>x. x * x) (v :: real list))"
  by (induction v) auto

lemma sum_squares_pos:
  "0 < sum_list (map (\<lambda>x. x * x) (v :: real list)) \<longleftrightarrow> (\<exists>x \<in> set v. x \<noteq> 0)"
proof (induction v)
  case Nil
  then show ?case by simp
next
  case (Cons a v)
  show ?case
  proof (cases "a = 0")
    case True
    with Cons show ?thesis by simp
  next
    case False
    then have "0 < a * a" by (auto simp add: zero_less_mult_iff)
    with sum_squares_nonneg [of v] have "0 < a * a + sum_list (map (\<lambda>x. x * x) v)"
      by linarith
    with False show ?thesis by simp
  qed
qed

lemma linalg_norm_pos: "0 < linalg_norm v \<longleftrightarrow> (\<exists>x \<in> set v. x \<noteq> 0)"
  by (simp add: linalg_norm_def sum_squares_pos)
















text \<open>
  C7, on the code: the synthetic entry is stored under the plain integer 999, and so a live
  track with the ID 999 is overwritten by an enrollment and deleted when it ends.
\<close>

theorem upload_id_clobbers_live_track:
  "tracker_dict live_track_999 upload_track_id = Some bob_entry \<and>
   tracker_dict (process_face_like_mouse_click env_silent live_track_999 corner_face rgb_pixel_image)
     upload_track_id = None"
  by (simp add: live_track_999_def upload_track_id_def process_face_like_mouse_click_def
      recognition_of_def try_recognition_def py_index_def corner_face_def env_silent_def
      fake_obj_def linalg_norm_pos split: prod.splits recognition_result.splits)

end
